theory Spec2Isabelle
  imports Main
begin

section \<open>JavaScript values used by main.js\<close>

text \<open>
  A JavaScript string is modelled as a \<^typ>\<open>string\<close>, one \<^typ>\<open>char\<close> per code unit
  (code units below 256). A value that is either a string or \<^verbatim>\<open>undefined\<close> (an option of
  the command line that was not given, an unset environment variable) is a
  \<^typ>\<open>string option\<close>, \<^term>\<open>None\<close> standing for \<^verbatim>\<open>undefined\<close>.
\<close>

text \<open>
  The characters \<^verbatim>\<open>String.prototype.trim\<close> removes (ECMAScript WhiteSpace and
  LineTerminator), as far as they lie below 256: TAB, LF, VT, FF, CR, SPACE and NBSP.
\<close>

definition is_ws :: "char \<Rightarrow> bool" where
  "is_ws c = (c \<in> set [CHR 0x09, CHR 0x0A, CHR 0x0B, CHR 0x0C, CHR 0x0D, CHR 0x20, CHR 0xA0])"

text \<open>\<^verbatim>\<open>s.trim()\<close>: whitespace is removed at both ends.\<close>

definition trim :: "string \<Rightarrow> string" where
  "trim s = rev (dropWhile is_ws (rev (dropWhile is_ws s)))"

text \<open>Truthiness of a string-or-undefined value: \<^verbatim>\<open>undefined\<close> and \<^verbatim>\<open>''\<close> are falsy.\<close>

definition truthy :: "string option \<Rightarrow> bool" where
  "truthy v = (case v of None \<Rightarrow> False | Some s \<Rightarrow> s \<noteq> [])"

text \<open>\<^verbatim>\<open>v || d\<close> for a string-or-undefined \<^verbatim>\<open>v\<close> and a string \<^verbatim>\<open>d\<close>.\<close>

definition or_else :: "string option \<Rightarrow> string \<Rightarrow> string" where
  "or_else v d = (case v of None \<Rightarrow> d | Some s \<Rightarrow> if s \<noteq> [] then s else d)"

text \<open>A value inside a template literal: \<^verbatim>\<open>`${v}`\<close>.\<close>

definition template :: "string option \<Rightarrow> string" where
  "template v = (case v of None \<Rightarrow> ''undefined'' | Some s \<Rightarrow> s)"

text \<open>\<^verbatim>\<open>s.split(sep)\<close> for a one-character separator: never the empty list.\<close>

fun split_str :: "char \<Rightarrow> string \<Rightarrow> string list" where
  "split_str sep [] = [[]]"
| "split_str sep (c # cs) =
     (if c = sep then [] # split_str sep cs
      else (case split_str sep cs of
              [] \<Rightarrow> [[c]]
            | l # ls \<Rightarrow> (c # l) # ls))"

section \<open>The command line and the environment\<close>

text \<open>
  The fields of \<^verbatim>\<open>argv\<close> and of \<^verbatim>\<open>process.env\<close> that \<^verbatim>\<open>sendEmail\<close> reads:
  \<^verbatim>\<open>argv.spoofName\<close>, \<^verbatim>\<open>argv.link\<close>, \<^verbatim>\<open>argv['link-text']\<close>, \<^verbatim>\<open>argv.attachment\<close>
  and \<^verbatim>\<open>process.env.user\<close>.
\<close>

record config =
  argv_spoofName :: "string option"
  argv_link :: "string option"
  argv_link_text :: "string option"
  argv_attachment :: "string option"
  env_user :: "string option"

section \<open>The message handed to the transport\<close>

datatype attachment = Attachment (path: string)

text \<open>
  The object \<^verbatim>\<open>mailOptions\<close>. The fields \<^verbatim>\<open>text\<close> and \<^verbatim>\<open>html\<close> hold a string or
  \<^verbatim>\<open>null\<close> (\<^term>\<open>None\<close>); \<^verbatim>\<open>subject\<close> is the parameter as passed, possibly
  \<^verbatim>\<open>undefined\<close>.
\<close>

record mail =
  mail_from :: string
  mail_to :: string
  mail_subject :: "string option"
  mail_text :: "string option"
  mail_html :: "string option"
  mail_attachments :: "attachment list"

text \<open>Lines 179 to 204 of \<^verbatim>\<open>sendEmail\<close>: the construction of \<^verbatim>\<open>mailOptions\<close>.\<close>

definition mailOptions :: "config \<Rightarrow> string \<Rightarrow> string option \<Rightarrow> string \<Rightarrow> bool \<Rightarrow> mail" where
  "mailOptions cfg to subject customMessage isHtml =
     (let m0 = \<lparr> mail_from = or_else (argv_spoofName cfg) ''Sender'' @ '' <'' @ template (env_user cfg) @ ''>'',
                  mail_to = to,
                  mail_subject = subject,
                  mail_text = (if isHtml then None else Some customMessage),
                  mail_html = (if isHtml then Some customMessage else None),
                  mail_attachments = [] \<rparr>;
          m1 = (case argv_link cfg of
                  None \<Rightarrow> m0
                | Some url \<Rightarrow>
                    if url = [] then m0
                    else
                      let displayText = or_else (argv_link_text cfg) url;
                          linkMessage =
                            (if isHtml
                             then ''<p>'' @ customMessage @ ''</p><p>Link: <a href='' @ [CHR 0x22] @ url
                                    @ [CHR 0x22] @ ''>'' @ displayText @ ''</a></p>''
                             else customMessage @ [CHR 0x0A] @ ''Link: '' @ url)
                      in m0\<lparr> mail_html := (if isHtml then Some linkMessage else None),
                             mail_text := (if isHtml then None else Some linkMessage) \<rparr>);
          m2 = (case argv_attachment cfg of
                  None \<Rightarrow> m1
                | Some p \<Rightarrow>
                    if p = [] then m1
                    else m1\<lparr> mail_attachments := mail_attachments m1 @ [Attachment p] \<rparr>)
      in m2)"

text \<open>A body is non-empty when it is neither \<^verbatim>\<open>null\<close> nor the empty string.\<close>

definition nonempty :: "string option \<Rightarrow> bool" where
  "nonempty b = (case b of None \<Rightarrow> False | Some s \<Rightarrow> s \<noteq> [])"

section \<open>The transport, the console and the files\<close>

text \<open>
  \<^verbatim>\<open>transporter.sendMail(mailOptions)\<close> is nodemailer's: its promise is fulfilled, or
  rejected with an \<^verbatim>\<open>Error\<close> object, of which \<^verbatim>\<open>sendEmail\<close> reads \<^verbatim>\<open>message\<close>.
  The transport is a parameter: any function from its own state and the message to an
  outcome and a new state.
\<close>

datatype send_outcome = Delivered | Failed string

type_synonym 'ts transport = "'ts \<Rightarrow> mail \<Rightarrow> send_outcome \<times> 'ts"

datatype console_line = Console_log string | Console_error string

text \<open>Exceptions thrown by the runtime, and the values promises are rejected with.\<close>

datatype js_exn = TypeError | SyntaxError string

datatype rejection =
    Error_reading_file string
  | Error_reading_CSV_file string
  | Error_parsing_JSON js_exn
  | Thrown js_exn

text \<open>
  How an asynchronous call ends: its promise is fulfilled with a value or rejected, or
  an \<^verbatim>\<open>error\<close> event that has no listener ends the process.
\<close>

datatype 'a promise = Resolved 'a | Rejected rejection | Crashed string

text \<open>
  What the program does to the outside, in the order it is done: the messages passed to
  \<^verbatim>\<open>transporter.sendMail\<close> (one entry per call, in call order), the console lines, the
  files opened and the timers awaited (milliseconds). Lines that the calls of the
  \<^verbatim>\<open>Promise.all\<close> pass print are listed in the order of the calls.
\<close>

record 'ts world =
  transport_state :: 'ts
  outbox :: "mail list"
  console :: "console_line list"
  files_read :: "string list"
  timers :: "nat list"

text \<open>
  Values of the JSON data model. A number keeps its literal: its value plays no role
  here. An object lists its members in the order of the text; a later member of the
  same name overrides an earlier one.
\<close>

datatype json =
    JNull
  | JBool bool
  | JNumber string
  | JString string
  | JArray "json list"
  | JObject "(string \<times> json) list"

text \<open>Reading property \<^verbatim>\<open>k\<close> of an object given by its members.\<close>

definition property :: "(string \<times> 'v) list \<Rightarrow> string \<Rightarrow> 'v option" where
  "property members k = map_of (rev members) k"

text \<open>
  The \<^verbatim>\<open>csv-parser\<close> stream piped from \<^verbatim>\<open>fs.createReadStream\<close>: the rows of its
  \<^verbatim>\<open>data\<close> events (objects from column names to strings), and then its \<^verbatim>\<open>end\<close> event,
  or an \<^verbatim>\<open>error\<close> event of the parser, or an \<^verbatim>\<open>error\<close> event of the file stream
  (\<^verbatim>\<open>pipe\<close> does not forward it, and the file stream has no listener).
\<close>

datatype csv_end = Csv_end | Csv_error string | Source_error string

text \<open>
  The library functions \<^verbatim>\<open>sendEmails\<close> and the readers call: \<^verbatim>\<open>path.extname\<close>,
  \<^verbatim>\<open>fs.readFile(p, 'utf8', ...)\<close> (\<^term>\<open>Inl\<close> the error, \<^term>\<open>Inr\<close> the content),
  \<^verbatim>\<open>JSON.parse\<close> (\<^term>\<open>Inl\<close> the message of its \<^verbatim>\<open>SyntaxError\<close>) and the CSV stream.
\<close>

record node_env =
  extname :: "string \<Rightarrow> string"
  readFile :: "string \<Rightarrow> string + string"
  JSON_parse :: "string \<Rightarrow> string + json"
  csv_stream :: "string \<Rightarrow> (string \<times> string) list list \<times> csv_end"

section \<open>sendEmail\<close>

text \<open>
  Lines 178 to 212. The \<^verbatim>\<open>try\<close> block awaits the transport and logs; the \<^verbatim>\<open>catch\<close>
  block logs the message of the error. The function has no other exit.
\<close>

definition sendEmail ::
  "config \<Rightarrow> 'ts transport \<Rightarrow> string \<Rightarrow> string option \<Rightarrow> string \<Rightarrow> bool \<Rightarrow> 'ts world
     \<Rightarrow> unit promise \<times> 'ts world" where
  "sendEmail cfg sendMail to subject customMessage isHtml w =
     (let m = mailOptions cfg to subject customMessage isHtml;
          (r, ts) = sendMail (transport_state w) m;
          w1 = w\<lparr> transport_state := ts, outbox := outbox w @ [m] \<rparr>
      in case r of
           Delivered \<Rightarrow>
             (Resolved (), w1\<lparr> console := console w1 @ [Console_log (''Email sent to: '' @ to)] \<rparr>)
         | Failed msg \<Rightarrow>
             (Resolved (),
              w1\<lparr> console := console w1
                     @ [Console_error (''Error sending email to '' @ to @ '' : '' @ msg)] \<rparr>))"

section \<open>The readers\<close>

text \<open>Lines 126 to 137.\<close>

definition readEmailsFromTxt ::
  "node_env \<Rightarrow> string \<Rightarrow> 'ts world \<Rightarrow> string list promise \<times> 'ts world" where
  "readEmailsFromTxt env targetFilePath w =
     (let w1 = w\<lparr> files_read := files_read w @ [targetFilePath] \<rparr>
      in case readFile env targetFilePath of
           Inl err \<Rightarrow> (Rejected (Error_reading_file err), w1)
         | Inr data \<Rightarrow>
             (Resolved (filter (\<lambda>email. trim email \<noteq> []) (split_str (CHR 0x0A) data)), w1))"

text \<open>
  Lines 140 to 157. A row is pushed when \<^verbatim>\<open>row.email\<close> is truthy, and pushed trimmed.
\<close>

fun csv_recipients :: "(string \<times> string) list list \<Rightarrow> string list" where
  "csv_recipients [] = []"
| "csv_recipients (row # rows) =
     (if truthy (property row ''email'')
      then trim (the (property row ''email'')) # csv_recipients rows
      else csv_recipients rows)"

definition readEmailsFromCsv ::
  "node_env \<Rightarrow> string \<Rightarrow> 'ts world \<Rightarrow> string list promise \<times> 'ts world" where
  "readEmailsFromCsv env targetFilePath w =
     (let w1 = w\<lparr> files_read := files_read w @ [targetFilePath] \<rparr>
      in case csv_stream env targetFilePath of
           (rows, Csv_end) \<Rightarrow> (Resolved (csv_recipients rows), w1)
         | (rows, Csv_error err) \<Rightarrow> (Rejected (Error_reading_CSV_file err), w1)
         | (rows, Source_error err) \<Rightarrow> (Crashed err, w1))"

text \<open>
  Lines 160 to 175. \<^verbatim>\<open>r.email.trim()\<close> for one element \<^verbatim>\<open>r\<close> of the parsed array:
  reading \<^verbatim>\<open>email\<close> of \<^verbatim>\<open>null\<close> throws; an object without the member, and a boolean,
  number, string or array, give \<^verbatim>\<open>undefined\<close>, of which reading \<^verbatim>\<open>trim\<close> throws; a
  member that is not a string has no function \<^verbatim>\<open>trim\<close>, and calling it throws.
\<close>

definition email_trim :: "json \<Rightarrow> js_exn + string" where
  "email_trim r =
     (case r of
        JObject members \<Rightarrow>
          (case property members ''email'' of
             Some (JString s) \<Rightarrow> Inr (trim s)
           | _ \<Rightarrow> Inl TypeError)
      | _ \<Rightarrow> Inl TypeError)"

text \<open>\<^verbatim>\<open>.map(r => r.email.trim())\<close>: the first element that throws ends the map.\<close>

fun map_email_trim :: "json list \<Rightarrow> js_exn + string list" where
  "map_email_trim [] = Inr []"
| "map_email_trim (r # rs) =
     (case email_trim r of
        Inl e \<Rightarrow> Inl e
      | Inr s \<Rightarrow>
          (case map_email_trim rs of
             Inl e \<Rightarrow> Inl e
           | Inr ss \<Rightarrow> Inr (s # ss)))"

text \<open>
  Whatever the \<^verbatim>\<open>try\<close> block throws rejects the promise with \<^verbatim>\<open>Error parsing JSON\<close>:
  the \<^verbatim>\<open>SyntaxError\<close> of \<^verbatim>\<open>JSON.parse\<close>, the \<^verbatim>\<open>TypeError\<close> of calling \<^verbatim>\<open>map\<close> on a
  value that is not an array, and the \<^verbatim>\<open>TypeError\<close> of an element.
  \<^verbatim>\<open>.filter(Boolean)\<close> drops the empty strings.
\<close>

definition readEmailsFromJson ::
  "node_env \<Rightarrow> string \<Rightarrow> 'ts world \<Rightarrow> string list promise \<times> 'ts world" where
  "readEmailsFromJson env targetFilePath w =
     (let w1 = w\<lparr> files_read := files_read w @ [targetFilePath] \<rparr>
      in case readFile env targetFilePath of
           Inl err \<Rightarrow> (Rejected (Error_reading_file err), w1)
         | Inr data \<Rightarrow>
             (case JSON_parse env data of
                Inl e \<Rightarrow> (Rejected (Error_parsing_JSON (SyntaxError e)), w1)
              | Inr (JArray rs) \<Rightarrow>
                  (case map_email_trim rs of
                     Inl e \<Rightarrow> (Rejected (Error_parsing_JSON e), w1)
                   | Inr emails \<Rightarrow> (Resolved (filter (\<lambda>s. s \<noteq> []) emails), w1))
              | Inr _ \<Rightarrow> (Rejected (Error_parsing_JSON TypeError), w1)))"

section \<open>sendEmails\<close>

text \<open>
  Lines 98 to 115: how \<^verbatim>\<open>recipients\<close> is obtained. The single address wins when it is
  truthy; otherwise the extension of the path selects the reader, whose rejection
  rejects \<^verbatim>\<open>sendEmails\<close> at its \<^verbatim>\<open>await\<close>; any other extension prints a line and
  returns. \<^verbatim>\<open>path.extname\<close> throws a \<^verbatim>\<open>TypeError\<close> when the path is \<^verbatim>\<open>undefined\<close>.
\<close>

datatype load_result =
    Recipients "string list"
  | Unsupported_file_format
  | Load_rejected rejection
  | Load_crashed string

definition awaited :: "string list promise \<times> 'ts world \<Rightarrow> load_result \<times> 'ts world" where
  "awaited pw =
     (case pw of
        (Resolved recipients, w) \<Rightarrow> (Recipients recipients, w)
      | (Rejected r, w) \<Rightarrow> (Load_rejected r, w)
      | (Crashed e, w) \<Rightarrow> (Load_crashed e, w))"

definition load_recipients ::
  "node_env \<Rightarrow> string option \<Rightarrow> string option \<Rightarrow> 'ts world \<Rightarrow> load_result \<times> 'ts world" where
  "load_recipients env targetFilePath singleEmail w =
     (if truthy singleEmail then (Recipients [trim (the singleEmail)], w)
      else
        (case targetFilePath of
           None \<Rightarrow> (Load_rejected (Thrown TypeError), w)
         | Some p \<Rightarrow>
             (let fileExtension = extname env p
              in if fileExtension = ''.txt'' then awaited (readEmailsFromTxt env p w)
                 else if fileExtension = ''.csv'' then awaited (readEmailsFromCsv env p w)
                 else if fileExtension = ''.json'' then awaited (readEmailsFromJson env p w)
                 else
                   (Unsupported_file_format,
                    w\<lparr> console := console w
                          @ [Console_log ''Unsupported file format. Please use .txt, .csv, or .json files.''] \<rparr>))))"

text \<open>
  Lines 117 to 120: the loop. A rejection of \<^verbatim>\<open>sendEmail\<close> would leave the loop at the
  \<^verbatim>\<open>await\<close>; otherwise a timer of 500 ms is awaited and the loop goes on.
\<close>

fun send_loop ::
  "config \<Rightarrow> 'ts transport \<Rightarrow> string option \<Rightarrow> string \<Rightarrow> bool \<Rightarrow> string list \<Rightarrow> 'ts world
     \<Rightarrow> unit promise \<times> 'ts world" where
  "send_loop cfg sendMail subject message isHtml [] w = (Resolved (), w)"
| "send_loop cfg sendMail subject message isHtml (recipient # rest) w =
     (case sendEmail cfg sendMail (trim recipient) subject message isHtml w of
        (Resolved u, w1) \<Rightarrow>
          send_loop cfg sendMail subject message isHtml rest (w1\<lparr> timers := timers w1 @ [500] \<rparr>)
      | (Rejected r, w1) \<Rightarrow> (Rejected r, w1)
      | (Crashed e, w1) \<Rightarrow> (Crashed e, w1))"

text \<open>
  Line 122: \<^verbatim>\<open>recipients.map(...)\<close> calls \<^verbatim>\<open>sendEmail\<close> for every recipient, in order,
  and each call runs up to its \<^verbatim>\<open>await\<close>, so the transport is called for every recipient,
  in order, before any of the sends completes. The completions are taken here in the
  order of the calls: one of the interleavings, all of which hand the same messages to
  the transport in the same order. \<^verbatim>\<open>Promise.all\<close> is rejected when one of the promises
  is.
\<close>

fun send_all ::
  "config \<Rightarrow> 'ts transport \<Rightarrow> string option \<Rightarrow> string \<Rightarrow> bool \<Rightarrow> string list \<Rightarrow> 'ts world
     \<Rightarrow> unit promise list \<times> 'ts world" where
  "send_all cfg sendMail subject message isHtml [] w = ([], w)"
| "send_all cfg sendMail subject message isHtml (recipient # rest) w =
     (let (p, w1) = sendEmail cfg sendMail (trim recipient) subject message isHtml w;
          (ps, w2) = send_all cfg sendMail subject message isHtml rest w1
      in (p # ps, w2))"

fun Promise_all :: "unit promise list \<Rightarrow> unit promise" where
  "Promise_all [] = Resolved ()"
| "Promise_all (Resolved u # ps) = Promise_all ps"
| "Promise_all (p # ps) = p"

text \<open>Lines 97 to 123.\<close>

definition sendEmails ::
  "node_env \<Rightarrow> config \<Rightarrow> 'ts transport \<Rightarrow> string option \<Rightarrow> string option \<Rightarrow> string option
     \<Rightarrow> string \<Rightarrow> bool \<Rightarrow> 'ts world \<Rightarrow> unit promise \<times> 'ts world" where
  "sendEmails env cfg sendMail targetFilePath singleEmail subject message isHtml w =
     (case load_recipients env targetFilePath singleEmail w of
        (Unsupported_file_format, w1) \<Rightarrow> (Resolved (), w1)
      | (Load_rejected r, w1) \<Rightarrow> (Rejected r, w1)
      | (Load_crashed e, w1) \<Rightarrow> (Crashed e, w1)
      | (Recipients recipients, w1) \<Rightarrow>
          (case send_loop cfg sendMail subject message isHtml recipients w1 of
             (Resolved u, w2) \<Rightarrow>
               (let (ps, w3) = send_all cfg sendMail subject message isHtml recipients w2
                in (Promise_all ps, w3))
           | (Rejected r, w2) \<Rightarrow> (Rejected r, w2)
           | (Crashed e, w2) \<Rightarrow> (Crashed e, w2)))"

section \<open>Outcomes and their record\<close>

text \<open>
  The outcomes a transport gives for a sequence of messages handed to it one after the
  other, with the state it is left in.
\<close>

fun outcomes :: "'ts transport \<Rightarrow> 'ts \<Rightarrow> mail list \<Rightarrow> send_outcome list \<times> 'ts" where
  "outcomes sendMail ts [] = ([], ts)"
| "outcomes sendMail ts (m # ms) =
     (let (r, ts1) = sendMail ts m;
          (rs, ts2) = outcomes sendMail ts1 ms
      in (r # rs, ts2))"

text \<open>
  The console line that records the outcome of the send to one address: the line of
  \<^verbatim>\<open>console.log\<close> (line 208) for a delivery, the line of \<^verbatim>\<open>console.error\<close> with the
  message of the error (line 210) for a failure.
\<close>

definition report :: "string \<Rightarrow> send_outcome \<Rightarrow> console_line" where
  "report to r =
     (case r of
        Delivered \<Rightarrow> Console_log (''Email sent to: '' @ to)
      | Failed msg \<Rightarrow> Console_error (''Error sending email to '' @ to @ '' : '' @ msg))"

section \<open>The specification's reader of a text file\<close>

text \<open>
  The specification's words for a \<^verbatim>\<open>.txt\<close> file: split the content on line breaks,
  discard the blank and whitespace-only lines, trim each remaining line.
\<close>

definition spec_txt_recipients :: "string \<Rightarrow> string list" where
  "spec_txt_recipients data =
     map trim (filter (\<lambda>l. \<not> list_all is_ws l) (split_str (CHR 0x0A) data))"

text \<open>A string with no whitespace at either end.\<close>

definition trimmed :: "string \<Rightarrow> bool" where
  "trimmed s = (case s of [] \<Rightarrow> True | c # cs \<Rightarrow> \<not> is_ws c \<and> \<not> is_ws (last (c # cs)))"

section \<open>A concrete environment\<close>

text \<open>
  \<^verbatim>\<open>path.extname\<close> on POSIX: the part of the last path component from its last dot on,
  and empty when the component has no dot, starts with its only dot, or is \<^verbatim>\<open>..\<close>.
\<close>

definition posix_extname :: "string \<Rightarrow> string" where
  "posix_extname p =
     (let b = rev (takeWhile (\<lambda>c. c \<noteq> CHR ''/'') (dropWhile (\<lambda>c. c = CHR ''/'') (rev p)));
          after_dot = takeWhile (\<lambda>c. c \<noteq> CHR ''.'') (rev b);
          upto_dot = dropWhile (\<lambda>c. c \<noteq> CHR ''.'') (rev b)
      in if upto_dot = [] then []
         else if tl upto_dot = [] then []
         else if b = ''..'' then []
         else CHR ''.'' # rev after_dot)"

text \<open>
  An environment over a table of files, and a table of the JSON documents among them
  with the values \<^verbatim>\<open>JSON.parse\<close> gives for them. The CSV stream of every path is empty.
\<close>

definition example_env :: "(string \<times> string) list \<Rightarrow> (string \<times> json) list \<Rightarrow> node_env" where
  "example_env files documents =
     \<lparr> extname = posix_extname,
       readFile = (\<lambda>p. case map_of files p of
                          None \<Rightarrow> Inl ''ENOENT: no such file or directory''
                        | Some data \<Rightarrow> Inr data),
       JSON_parse = (\<lambda>data. case map_of documents data of
                               None \<Rightarrow> Inl ''Unexpected token''
                             | Some v \<Rightarrow> Inr v),
       csv_stream = (\<lambda>p. ([], Csv_end)) \<rparr>"

definition quoted :: "string \<Rightarrow> string" where
  "quoted s = [CHR 0x22] @ s @ [CHR 0x22]"

text \<open>A configuration with no option given, a world in which nothing has happened yet.\<close>

definition no_options :: config where
  "no_options =
     \<lparr> argv_spoofName = None, argv_link = None, argv_link_text = None,
       argv_attachment = None, env_user = Some ''me@example.org'' \<rparr>"

definition start :: "'ts \<Rightarrow> 'ts world" where
  "start ts = \<lparr> transport_state = ts, outbox = [], console = [], files_read = [], timers = [] \<rparr>"

text \<open>A transport that delivers everything, and one that fails for one address.\<close>

definition delivers :: "unit transport" where
  "delivers ts m = (Delivered, ts)"

definition fails_for :: "string \<Rightarrow> unit transport" where
  "fails_for a ts m = (if mail_to m = a then (Failed ''Mailbox unavailable'', ts) else (Delivered, ts))"

text \<open>
  Three recipient files: two addresses with a blank line between them, the second with
  spaces around it; two addresses with Windows line ends; and a JSON array whose second
  object has no member \<^verbatim>\<open>email\<close>, with the value \<^verbatim>\<open>JSON.parse\<close> gives for it.
\<close>

definition example_txt :: string where
  "example_txt = ''a@x.com'' @ [CHR 0x0A, CHR 0x0A] @ '' b@x.com '' @ [CHR 0x0A]"

definition example_crlf :: string where
  "example_crlf = ''a@x.com'' @ [CHR 0x0D, CHR 0x0A] @ ''b@x.com'' @ [CHR 0x0D, CHR 0x0A]"

definition example_json :: string where
  "example_json =
     ''[{'' @ quoted ''email'' @ '':'' @ quoted ''a@x.com'' @ ''},{'' @ quoted ''name'' @ '':''
     @ quoted ''bob'' @ ''}]''"

definition example_json_value :: json where
  "example_json_value =
     JArray [JObject [(''email'', JString ''a@x.com'')], JObject [(''name'', JString ''bob'')]]"

section \<open>Properties of trim\<close>

lemma dropWhile_all: "(\<forall>x\<in>set (dropWhile P xs). P x) \<longleftrightarrow> (\<forall>x\<in>set xs. P x)"
  by (induction xs) auto

lemma trim_eq_Nil: "trim s = [] \<longleftrightarrow> list_all is_ws s"
  by (simp add: trim_def list_all_iff dropWhile_all)

lemma trim_split: "trim s @ rev (takeWhile is_ws (rev (dropWhile is_ws s))) = dropWhile is_ws s"
  unfolding trim_def rev_append [symmetric] by simp

lemma trim_hd: "trim s \<noteq> [] \<Longrightarrow> \<not> is_ws (hd (trim s))"
proof -
  assume ne: "trim s \<noteq> []"
  then have d: "dropWhile is_ws s \<noteq> []" by (auto simp: trim_def dest: set_dropWhileD)
  have "hd (dropWhile is_ws s) = hd (trim s)"
    using ne trim_split [of s] by (metis hd_append2)
  with hd_dropWhile [OF d] show ?thesis by simp
qed

lemma trim_last: "trim s \<noteq> [] \<Longrightarrow> \<not> is_ws (last (trim s))"
proof -
  assume ne: "trim s \<noteq> []"
  then have d: "dropWhile is_ws (rev (dropWhile is_ws s)) \<noteq> []" by (simp add: trim_def)
  have "last (trim s) = hd (dropWhile is_ws (rev (dropWhile is_ws s)))"
    using d by (simp add: trim_def last_rev)
  with hd_dropWhile [OF d] show ?thesis by simp
qed

lemma trimmed_trim: "trimmed (trim s)"
  using trim_hd [of s] trim_last [of s] by (auto simp: trimmed_def split: list.splits)

lemma trim_trimmed: "trimmed s \<Longrightarrow> trim s = s"
proof (cases s)
  case Nil
  then show ?thesis by (simp add: trim_def)
next
  case (Cons c cs)
  assume "trimmed s"
  with Cons have a: "\<not> is_ws c" and b: "\<not> is_ws (last (c # cs))" by (simp_all add: trimmed_def)
  have "dropWhile is_ws (rev (c # cs)) = rev (c # cs)"
    using b by (simp only: dropWhile_eq_self_iff hd_rev) simp
  with a Cons show ?thesis by (simp add: trim_def)
qed

lemma trim_idem: "trim (trim s) = trim s"
  by (rule trim_trimmed) (rule trimmed_trim)

section \<open>The composed message\<close>

lemma mailOptions_to: "mail_to (mailOptions cfg to subject customMessage isHtml) = to"
  by (simp add: mailOptions_def Let_def split: option.splits)

text \<open>
  Claim C3. Whatever the base message, the content mode, the link, the link text and the
  attachment are, the composed message never has a non-empty plain-text body together
  with a non-empty HTML body: the body of the inactive content mode is \<^verbatim>\<open>null\<close>.
\<close>

theorem mailOptions_bodies_exclusive:
  "\<not> (nonempty (mail_text (mailOptions cfg to subject customMessage isHtml))
       \<and> nonempty (mail_html (mailOptions cfg to subject customMessage isHtml)))
   \<and> mail_text (mailOptions cfg to subject customMessage True) = None
   \<and> mail_html (mailOptions cfg to subject customMessage False) = None"
  by (simp add: mailOptions_def Let_def nonempty_def split: option.splits)

theorem mailOptions_bodies_exclusive_witness:
  "\<not> (nonempty (mail_text (mailOptions (no_options\<lparr> argv_link := Some ''https://x.com'' \<rparr>)
                              ''a@x.com'' (Some ''s'') ''Hi'' True))
       \<and> nonempty (mail_html (mailOptions (no_options\<lparr> argv_link := Some ''https://x.com'' \<rparr>)
                                ''a@x.com'' (Some ''s'') ''Hi'' True)))
   \<and> nonempty (mail_html (mailOptions (no_options\<lparr> argv_link := Some ''https://x.com'' \<rparr>)
                            ''a@x.com'' (Some ''s'') ''Hi'' True))"
  using mailOptions_bodies_exclusive
    [of "no_options\<lparr> argv_link := Some ''https://x.com'' \<rparr>" "''a@x.com''" "Some ''s''" "''Hi''" True]
  by (simp add: mailOptions_def Let_def nonempty_def no_options_def)

text \<open>
  Claim C4. With a link present (a non-empty \<^verbatim>\<open>argv.link\<close>), the display text is the
  link text when one is given and the URL otherwise, and the link message replaces the
  body of the active content mode: in HTML mode the HTML body is
  \<^verbatim>\<open><p>{message}</p><p>Link: <a href="{url}">{displayText}</a></p>\<close> and the plain body is
  \<^verbatim>\<open>null\<close>; in plain mode the plain body is the message, a newline and \<^verbatim>\<open>Link: {url}\<close>,
  and the HTML body is \<^verbatim>\<open>null\<close>.
\<close>

theorem mailOptions_link:
  assumes "argv_link cfg = Some url" and "url \<noteq> []"
  shows "mail_html (mailOptions cfg to subject customMessage True)
           = Some (''<p>'' @ customMessage @ ''</p><p>Link: <a href='' @ quoted url @ ''>''
                   @ (case argv_link_text cfg of
                        None \<Rightarrow> url
                      | Some t \<Rightarrow> if t = [] then url else t)
                   @ ''</a></p>'')
         \<and> mail_text (mailOptions cfg to subject customMessage True) = None
         \<and> mail_text (mailOptions cfg to subject customMessage False)
             = Some (customMessage @ [CHR 0x0A] @ ''Link: '' @ url)
         \<and> mail_html (mailOptions cfg to subject customMessage False) = None"
  using assms
  by (simp add: mailOptions_def Let_def or_else_def quoted_def split: option.splits)

theorem mailOptions_link_witness:
  "mail_html (mailOptions (no_options\<lparr> argv_link := Some ''https://x.com'' \<rparr>) ''a@x.com'' None ''Hi'' True)
     = Some (''<p>Hi</p><p>Link: <a href='' @ quoted ''https://x.com'' @ ''>https://x.com</a></p>'')
   \<and> mail_text (mailOptions (no_options\<lparr> argv_link := Some ''https://x.com'' \<rparr>) ''a@x.com'' None ''Hi'' True)
       = None
   \<and> mail_text (mailOptions (no_options\<lparr> argv_link := Some ''https://x.com'' \<rparr>) ''a@x.com'' None ''Hi'' False)
       = Some (''Hi'' @ [CHR 0x0A] @ ''Link: https://x.com'')
   \<and> mail_html (mailOptions (no_options\<lparr> argv_link := Some ''https://x.com'' \<rparr>) ''a@x.com'' None ''Hi'' False)
       = None"
  using mailOptions_link
    [of "no_options\<lparr> argv_link := Some ''https://x.com'' \<rparr>" "''https://x.com''" "''a@x.com''" None "''Hi''"]
  by (simp add: no_options_def)

section \<open>sendEmail\<close>

lemma sendEmail_effect:
  "\<exists>w'. sendEmail cfg sendMail to subject customMessage isHtml w = (Resolved (), w')
        \<and> outbox w' = outbox w @ [mailOptions cfg to subject customMessage isHtml]
        \<and> files_read w' = files_read w"
  by (simp add: sendEmail_def Let_def split: prod.splits send_outcome.splits)

text \<open>
  Claim C8. The message \<^verbatim>\<open>sendEmail\<close> hands to the transport is a function of its
  arguments, the options and the environment variable alone: two calls with the same
  inputs, in any two worlds and through any two transports, hand over the same value.
\<close>

theorem sendEmail_message_deterministic:
  "outbox (snd (sendEmail cfg sendMail1 to subject customMessage isHtml w1))
     = outbox w1 @ [mailOptions cfg to subject customMessage isHtml]
   \<and> outbox (snd (sendEmail cfg sendMail2 to subject customMessage isHtml w2))
       = outbox w2 @ [mailOptions cfg to subject customMessage isHtml]"
  by (simp add: sendEmail_def Let_def split: prod.splits send_outcome.splits)

text \<open>
  Claim C9. For every input and every transport, also one that fails, the promise of
  \<^verbatim>\<open>sendEmail\<close> is fulfilled and never rejected; when the transport fails, the error is
  printed on the console instead.
\<close>

theorem sendEmail_never_rejects:
  "fst (sendEmail cfg sendMail to subject customMessage isHtml w) = Resolved ()
   \<and> (\<forall>r. fst (sendEmail cfg sendMail to subject customMessage isHtml w) \<noteq> Rejected r)
   \<and> (\<forall>e. fst (sendEmail cfg sendMail to subject customMessage isHtml w) \<noteq> Crashed e)"
  by (simp add: sendEmail_def Let_def split: prod.splits send_outcome.splits)

theorem sendEmail_never_rejects_witness:
  "fst (sendEmail no_options (fails_for ''a@x.com'') ''a@x.com'' (Some ''s'') ''hello'' False (start ()))
     = Resolved ()
   \<and> console (snd (sendEmail no_options (fails_for ''a@x.com'') ''a@x.com'' (Some ''s'') ''hello'' False
                      (start ())))
       = [Console_error ''Error sending email to a@x.com : Mailbox unavailable'']"
  using sendEmail_never_rejects
    [of no_options "fails_for ''a@x.com''" "''a@x.com''" "Some ''s''" "''hello''" False "start ()"]
  by (simp add: sendEmail_def Let_def fails_for_def mailOptions_def no_options_def start_def)

section \<open>The two passes over the recipients\<close>

lemma send_loop_effect:
  "\<exists>w'. send_loop cfg sendMail subject message isHtml rs w = (Resolved (), w')
        \<and> outbox w' = outbox w @ map (\<lambda>r. mailOptions cfg (trim r) subject message isHtml) rs
        \<and> files_read w' = files_read w"
proof (induction rs arbitrary: w)
  case Nil
  show ?case by simp
next
  case (Cons r rs)
  obtain w1 where s: "sendEmail cfg sendMail (trim r) subject message isHtml w = (Resolved (), w1)"
    and o1: "outbox w1 = outbox w @ [mailOptions cfg (trim r) subject message isHtml]"
    and f1: "files_read w1 = files_read w"
    using sendEmail_effect [of cfg sendMail "trim r" subject message isHtml w] by blast
  obtain w' where l: "send_loop cfg sendMail subject message isHtml rs (w1\<lparr> timers := timers w1 @ [500] \<rparr>)
                        = (Resolved (), w')"
    and o2: "outbox w' = outbox (w1\<lparr> timers := timers w1 @ [500] \<rparr>)
                           @ map (\<lambda>r. mailOptions cfg (trim r) subject message isHtml) rs"
    and f2: "files_read w' = files_read (w1\<lparr> timers := timers w1 @ [500] \<rparr>)"
    using Cons.IH [of "w1\<lparr> timers := timers w1 @ [500] \<rparr>"] by blast
  show ?case using s l o1 o2 f1 f2 by simp
qed

lemma send_all_effect:
  "\<exists>ps w'. send_all cfg sendMail subject message isHtml rs w = (ps, w')
        \<and> Promise_all ps = Resolved ()
        \<and> outbox w' = outbox w @ map (\<lambda>r. mailOptions cfg (trim r) subject message isHtml) rs
        \<and> files_read w' = files_read w"
proof (induction rs arbitrary: w)
  case Nil
  show ?case by simp
next
  case (Cons r rs)
  obtain w1 where s: "sendEmail cfg sendMail (trim r) subject message isHtml w = (Resolved (), w1)"
    and o1: "outbox w1 = outbox w @ [mailOptions cfg (trim r) subject message isHtml]"
    and f1: "files_read w1 = files_read w"
    using sendEmail_effect [of cfg sendMail "trim r" subject message isHtml w] by blast
  obtain ps w' where l: "send_all cfg sendMail subject message isHtml rs w1 = (ps, w')"
    and p: "Promise_all ps = Resolved ()"
    and o2: "outbox w' = outbox w1 @ map (\<lambda>r. mailOptions cfg (trim r) subject message isHtml) rs"
    and f2: "files_read w' = files_read w1"
    using Cons.IH [of w1] by blast
  show ?case using s l p o1 o2 f1 f2 by simp
qed

lemma load_recipients_outbox: "outbox (snd (load_recipients env targetFilePath singleEmail w)) = outbox w"
  by (simp add: load_recipients_def awaited_def readEmailsFromTxt_def readEmailsFromCsv_def
      readEmailsFromJson_def Let_def
      split: option.splits sum.splits prod.splits csv_end.splits json.splits)

lemma sendEmails_recipients:
  assumes "load_recipients env targetFilePath singleEmail w = (Recipients rs, w1)"
  shows "\<exists>w'. sendEmails env cfg sendMail targetFilePath singleEmail subject message isHtml w
                = (Resolved (), w')
              \<and> outbox w' = outbox w
                   @ map (\<lambda>r. mailOptions cfg (trim r) subject message isHtml) rs
                   @ map (\<lambda>r. mailOptions cfg (trim r) subject message isHtml) rs"
proof -
  have o: "outbox w1 = outbox w"
    using load_recipients_outbox [of env targetFilePath singleEmail w] assms by simp
  obtain w2 where l: "send_loop cfg sendMail subject message isHtml rs w1 = (Resolved (), w2)"
    and o2: "outbox w2 = outbox w1 @ map (\<lambda>r. mailOptions cfg (trim r) subject message isHtml) rs"
    using send_loop_effect [of cfg sendMail subject message isHtml rs w1] by blast
  obtain ps w3 where a: "send_all cfg sendMail subject message isHtml rs w2 = (ps, w3)"
    and p: "Promise_all ps = Resolved ()"
    and o3: "outbox w3 = outbox w2 @ map (\<lambda>r. mailOptions cfg (trim r) subject message isHtml) rs"
    using send_all_effect [of cfg sendMail subject message isHtml rs w2] by blast
  show ?thesis using assms l a p o o2 o3 by (simp add: sendEmails_def)
qed

lemma sendEmails_no_recipients:
  assumes "load_recipients env targetFilePath singleEmail w = (l, w1)" and "\<forall>rs. l \<noteq> Recipients rs"
  shows "snd (sendEmails env cfg sendMail targetFilePath singleEmail subject message isHtml w) = w1"
  using assms by (cases l) (simp_all add: sendEmails_def)

lemma sendEmails_outbox:
  "\<exists>rs. outbox (snd (sendEmails env cfg sendMail targetFilePath singleEmail subject message isHtml w))
          = outbox w @ map (\<lambda>r. mailOptions cfg (trim r) subject message isHtml) rs"
proof (cases "load_recipients env targetFilePath singleEmail w")
  case (Pair l w1)
  show ?thesis
  proof (cases "\<exists>rs. l = Recipients rs")
    case True
    then obtain rs where "l = Recipients rs" by blast
    with Pair sendEmails_recipients [of env targetFilePath singleEmail w rs w1 cfg sendMail subject message isHtml]
    obtain w' where "sendEmails env cfg sendMail targetFilePath singleEmail subject message isHtml w
                = (Resolved (), w')"
      and "outbox w' = outbox w
                   @ map (\<lambda>r. mailOptions cfg (trim r) subject message isHtml) (rs @ rs)" by auto
    then show ?thesis by (intro exI [of _ "rs @ rs"]) simp
  next
    case False
    with Pair have "snd (sendEmails env cfg sendMail targetFilePath singleEmail subject message isHtml w) = w1"
      using sendEmails_no_recipients by blast
    moreover have "outbox w1 = outbox w"
      using load_recipients_outbox [of env targetFilePath singleEmail w] Pair by simp
    ultimately show ?thesis by (intro exI [of _ "[]"]) simp
  qed
qed

lemma sendEmail_full:
  "sendEmail cfg sendMail to subject customMessage isHtml w
     = (Resolved (),
        w\<lparr> transport_state := snd (sendMail (transport_state w) (mailOptions cfg to subject customMessage isHtml)),
           outbox := outbox w @ [mailOptions cfg to subject customMessage isHtml],
           console := console w
             @ [report to (fst (sendMail (transport_state w) (mailOptions cfg to subject customMessage isHtml)))] \<rparr>)"
  by (simp add: sendEmail_def Let_def report_def split: prod.splits send_outcome.splits)

lemma length_outcomes: "length (fst (outcomes sendMail ts ms)) = length ms"
  by (induction ms arbitrary: ts) (simp_all add: split_beta Let_def)

lemma send_loop_full:
  "\<exists>w'. send_loop cfg sendMail subject message isHtml rs w = (Resolved (), w')
        \<and> console w' = console w
            @ map2 report (map trim rs)
                (fst (outcomes sendMail (transport_state w)
                        (map (\<lambda>r. mailOptions cfg (trim r) subject message isHtml) rs)))
        \<and> transport_state w'
            = snd (outcomes sendMail (transport_state w)
                     (map (\<lambda>r. mailOptions cfg (trim r) subject message isHtml) rs))"
proof (induction rs arbitrary: w)
  case Nil
  show ?case by simp
next
  case (Cons r rs)
  let ?m = "mailOptions cfg (trim r) subject message isHtml"
  let ?w1 = "w\<lparr> transport_state := snd (sendMail (transport_state w) ?m),
                 outbox := outbox w @ [?m],
                 console := console w @ [report (trim r) (fst (sendMail (transport_state w) ?m))],
                 timers := timers w @ [500] \<rparr>"
  obtain w' where l: "send_loop cfg sendMail subject message isHtml rs ?w1 = (Resolved (), w')"
    and c: "console w' = console ?w1
            @ map2 report (map trim rs)
                (fst (outcomes sendMail (transport_state ?w1)
                        (map (\<lambda>r. mailOptions cfg (trim r) subject message isHtml) rs)))"
    and t: "transport_state w'
            = snd (outcomes sendMail (transport_state ?w1)
                     (map (\<lambda>r. mailOptions cfg (trim r) subject message isHtml) rs))"
    using Cons.IH [of ?w1] by blast
  show ?case using l c t by (simp add: sendEmail_full split_beta Let_def)
qed

lemma send_all_full:
  "\<exists>ps w'. send_all cfg sendMail subject message isHtml rs w = (ps, w')
        \<and> console w' = console w
            @ map2 report (map trim rs)
                (fst (outcomes sendMail (transport_state w)
                        (map (\<lambda>r. mailOptions cfg (trim r) subject message isHtml) rs)))"
proof (induction rs arbitrary: w)
  case Nil
  show ?case by simp
next
  case (Cons r rs)
  let ?m = "mailOptions cfg (trim r) subject message isHtml"
  let ?w1 = "w\<lparr> transport_state := snd (sendMail (transport_state w) ?m),
                 outbox := outbox w @ [?m],
                 console := console w @ [report (trim r) (fst (sendMail (transport_state w) ?m))] \<rparr>"
  obtain ps w' where l: "send_all cfg sendMail subject message isHtml rs ?w1 = (ps, w')"
    and c: "console w' = console ?w1
            @ map2 report (map trim rs)
                (fst (outcomes sendMail (transport_state ?w1)
                        (map (\<lambda>r. mailOptions cfg (trim r) subject message isHtml) rs)))"
    using Cons.IH [of ?w1] by blast
  show ?case using l c by (simp add: sendEmail_full split_beta Let_def)
qed

lemma sendEmails_console:
  assumes "load_recipients env targetFilePath singleEmail w = (Recipients rs, w1)"
  shows "console (snd (sendEmails env cfg sendMail targetFilePath singleEmail subject message isHtml w))
           = console w1
             @ map2 report (map trim rs)
                 (fst (outcomes sendMail (transport_state w1)
                         (map (\<lambda>r. mailOptions cfg (trim r) subject message isHtml) rs)))
             @ map2 report (map trim rs)
                 (fst (outcomes sendMail
                         (snd (outcomes sendMail (transport_state w1)
                                 (map (\<lambda>r. mailOptions cfg (trim r) subject message isHtml) rs)))
                         (map (\<lambda>r. mailOptions cfg (trim r) subject message isHtml) rs)))"
proof -
  obtain w2 where l: "send_loop cfg sendMail subject message isHtml rs w1 = (Resolved (), w2)"
    and c2: "console w2 = console w1
            @ map2 report (map trim rs)
                (fst (outcomes sendMail (transport_state w1)
                        (map (\<lambda>r. mailOptions cfg (trim r) subject message isHtml) rs)))"
    and t2: "transport_state w2
            = snd (outcomes sendMail (transport_state w1)
                     (map (\<lambda>r. mailOptions cfg (trim r) subject message isHtml) rs))"
    using send_loop_full [of cfg sendMail subject message isHtml rs w1] by blast
  obtain ps w3 where a: "send_all cfg sendMail subject message isHtml rs w2 = (ps, w3)"
    and c3: "console w3 = console w2
            @ map2 report (map trim rs)
                (fst (outcomes sendMail (transport_state w2)
                        (map (\<lambda>r. mailOptions cfg (trim r) subject message isHtml) rs)))"
    using send_all_full [of cfg sendMail subject message isHtml rs w2] by blast
  show ?thesis using assms l a c2 t2 c3 by (simp add: sendEmails_def)
qed

section \<open>Runs of the concrete environment\<close>

lemma example_txt_load:
  "load_recipients (example_env [(''list.txt'', example_txt)] []) (Some ''list.txt'') None (start ())
     = (Recipients [''a@x.com'', '' b@x.com ''], (start ())\<lparr> files_read := [''list.txt''] \<rparr>)"
  by code_simp

lemma example_trims: "trim ''a@x.com'' = ''a@x.com''" "trim '' b@x.com '' = ''b@x.com''"
  by code_simp+

lemma example_fails_outcomes:
  "fst (outcomes (fails_for ''a@x.com'') ts
          [mailOptions no_options ''a@x.com'' (Some ''s'') ''hello'' False,
           mailOptions no_options ''b@x.com'' (Some ''s'') ''hello'' False])
     = [Failed ''Mailbox unavailable'', Delivered]"
  by (simp add: fails_for_def mailOptions_to)

section \<open>The dispatch\<close>

text \<open>
  Claim C1 says that every recipient is passed to the transport exactly once. The loop
  of lines 117 to 120 does that, and line 122 then sends to every recipient again: for
  the single address \<^verbatim>\<open>a@x.com\<close> the transport is called twice.
\<close>

theorem sendEmails_sends_twice:
  "map mail_to (outbox (snd (sendEmails (example_env [] []) no_options delivers None (Some ''a@x.com'')
                               (Some ''s'') ''hello'' False (start ()))))
     = [''a@x.com'', ''a@x.com'']"
  by code_simp

text \<open>
  Claim C2. Whatever the transport does, and so also when it fails for some recipient:
  \<^verbatim>\<open>sendEmail\<close> ends normally, having handed the message to the transport and printed
  the line that records the outcome, for a failure the \<^verbatim>\<open>console.error\<close> line with the
  message of the error; the loop attempts every recipient of the list in order and ends
  normally, printing one such line per recipient, the line of the outcome the transport
  gave for that recipient; and so does the whole of \<^verbatim>\<open>sendEmails\<close>. The addresses handed
  to the transport do not depend on the outcomes.
\<close>

theorem sendEmails_failure_isolated:
  assumes "load_recipients env targetFilePath singleEmail w = (Recipients recipients, w1)"
  shows "fst (send_loop cfg sendMail subject message isHtml recipients w1) = Resolved ()
         \<and> map mail_to (outbox (snd (send_loop cfg sendMail subject message isHtml recipients w1)))
             = map mail_to (outbox w1) @ map trim recipients
         \<and> fst (sendEmails env cfg sendMail targetFilePath singleEmail subject message isHtml w)
             = Resolved ()
         \<and> map mail_to
               (outbox (snd (sendEmails env cfg sendMail targetFilePath singleEmail subject message isHtml w)))
             = map mail_to (outbox w) @ map trim recipients @ map trim recipients
         \<and> (\<forall>to w0. sendEmail cfg sendMail to subject message isHtml w0
               = (Resolved (),
                  w0\<lparr> transport_state :=
                         snd (sendMail (transport_state w0) (mailOptions cfg to subject message isHtml)),
                       outbox := outbox w0 @ [mailOptions cfg to subject message isHtml],
                       console := console w0
                         @ [report to
                              (fst (sendMail (transport_state w0)
                                      (mailOptions cfg to subject message isHtml)))] \<rparr>))
         \<and> (\<forall>to msg. report to (Failed msg)
               = Console_error (''Error sending email to '' @ to @ '' : '' @ msg))
         \<and> console (snd (send_loop cfg sendMail subject message isHtml recipients w1))
             = console w1
               @ map2 report (map trim recipients)
                   (fst (outcomes sendMail (transport_state w1)
                           (map (\<lambda>r. mailOptions cfg (trim r) subject message isHtml) recipients)))
         \<and> length (console (snd (send_loop cfg sendMail subject message isHtml recipients w1)))
             = length (console w1) + length recipients
         \<and> console (snd (sendEmails env cfg sendMail targetFilePath singleEmail subject message isHtml w))
             = console w1
               @ map2 report (map trim recipients)
                   (fst (outcomes sendMail (transport_state w1)
                           (map (\<lambda>r. mailOptions cfg (trim r) subject message isHtml) recipients)))
               @ map2 report (map trim recipients)
                   (fst (outcomes sendMail
                           (snd (outcomes sendMail (transport_state w1)
                                   (map (\<lambda>r. mailOptions cfg (trim r) subject message isHtml) recipients)))
                           (map (\<lambda>r. mailOptions cfg (trim r) subject message isHtml) recipients)))"
proof -
  obtain w2 where l: "send_loop cfg sendMail subject message isHtml recipients w1 = (Resolved (), w2)"
    and o2: "outbox w2 = outbox w1 @ map (\<lambda>r. mailOptions cfg (trim r) subject message isHtml) recipients"
    using send_loop_effect [of cfg sendMail subject message isHtml recipients w1] by blast
  obtain w' where s: "sendEmails env cfg sendMail targetFilePath singleEmail subject message isHtml w
                        = (Resolved (), w')"
    and o: "outbox w' = outbox w
              @ map (\<lambda>r. mailOptions cfg (trim r) subject message isHtml) recipients
              @ map (\<lambda>r. mailOptions cfg (trim r) subject message isHtml) recipients"
    using sendEmails_recipients [OF assms, of cfg sendMail subject message isHtml] by blast
  have c2: "console w2 = console w1
               @ map2 report (map trim recipients)
                   (fst (outcomes sendMail (transport_state w1)
                           (map (\<lambda>r. mailOptions cfg (trim r) subject message isHtml) recipients)))"
    using send_loop_full [of cfg sendMail subject message isHtml recipients w1] l by simp
  have n: "length (console w2) = length (console w1) + length recipients"
    by (simp add: c2 length_outcomes)
  have a: "fst (send_loop cfg sendMail subject message isHtml recipients w1) = Resolved ()
         \<and> map mail_to (outbox (snd (send_loop cfg sendMail subject message isHtml recipients w1)))
             = map mail_to (outbox w1) @ map trim recipients
         \<and> fst (sendEmails env cfg sendMail targetFilePath singleEmail subject message isHtml w)
             = Resolved ()
         \<and> map mail_to
               (outbox (snd (sendEmails env cfg sendMail targetFilePath singleEmail subject message isHtml w)))
             = map mail_to (outbox w) @ map trim recipients @ map trim recipients"
    using l o2 s o by (simp add: mailOptions_to comp_def)
  have b: "\<forall>to msg. report to (Failed msg)
               = Console_error (''Error sending email to '' @ to @ '' : '' @ msg)"
    by (simp add: report_def)
  show ?thesis
    using a b c2 n l sendEmail_full [of cfg sendMail _ subject message isHtml]
      sendEmails_console [OF assms, of cfg sendMail subject message isHtml]
    by simp
qed

theorem sendEmails_failure_isolated_witness:
  "fst (sendEmails (example_env [(''list.txt'', example_txt)] []) no_options (fails_for ''a@x.com'')
          (Some ''list.txt'') None (Some ''s'') ''hello'' False (start ()))
     = Resolved ()
   \<and> map mail_to
         (outbox (snd (sendEmails (example_env [(''list.txt'', example_txt)] []) no_options
                         (fails_for ''a@x.com'') (Some ''list.txt'') None (Some ''s'') ''hello'' False
                         (start ()))))
       = [''a@x.com'', ''b@x.com'', ''a@x.com'', ''b@x.com'']
   \<and> console (snd (sendEmails (example_env [(''list.txt'', example_txt)] []) no_options
                      (fails_for ''a@x.com'') (Some ''list.txt'') None (Some ''s'') ''hello'' False
                      (start ())))
       = [Console_error ''Error sending email to a@x.com : Mailbox unavailable'',
          Console_log ''Email sent to: b@x.com'',
          Console_error ''Error sending email to a@x.com : Mailbox unavailable'',
          Console_log ''Email sent to: b@x.com'']"
  using sendEmails_failure_isolated
    [OF example_txt_load, of no_options "fails_for ''a@x.com''" "Some ''s''" "''hello''" False]
  by (simp add: example_trims start_def example_fails_outcomes report_def del: outcomes.simps)

text \<open>
  Claim C10. Every message \<^verbatim>\<open>sendEmails\<close> hands to the transport has a trimmed \<^verbatim>\<open>to\<close>:
  no whitespace at either end, whatever the reader returned. The messages handed over
  before the call stay as they are.
\<close>

theorem sendEmails_to_trimmed:
  "take (length (outbox w))
      (outbox (snd (sendEmails env cfg sendMail targetFilePath singleEmail subject message isHtml w)))
     = outbox w
   \<and> list_all (\<lambda>m. trimmed (mail_to m) \<and> trim (mail_to m) = mail_to m)
       (drop (length (outbox w))
          (outbox (snd (sendEmails env cfg sendMail targetFilePath singleEmail subject message isHtml w))))"
proof -
  obtain rs where
    "outbox (snd (sendEmails env cfg sendMail targetFilePath singleEmail subject message isHtml w))
       = outbox w @ map (\<lambda>r. mailOptions cfg (trim r) subject message isHtml) rs"
    using sendEmails_outbox [of env cfg sendMail targetFilePath singleEmail subject message isHtml w]
    by blast
  then show ?thesis
    by (simp add: list_all_iff mailOptions_to trimmed_trim trim_idem)
qed

theorem sendEmails_to_trimmed_witness:
  "list_all (\<lambda>m. trimmed (mail_to m) \<and> trim (mail_to m) = mail_to m)
     (outbox (snd (sendEmails (example_env [(''list.txt'', example_txt)] []) no_options delivers
                     (Some ''list.txt'') None (Some ''s'') ''hello'' False (start ()))))
   \<and> length (outbox (snd (sendEmails (example_env [(''list.txt'', example_txt)] []) no_options delivers
                            (Some ''list.txt'') None (Some ''s'') ''hello'' False (start ()))))
       = 4"
proof -
  obtain w' where
    "sendEmails (example_env [(''list.txt'', example_txt)] []) no_options delivers
       (Some ''list.txt'') None (Some ''s'') ''hello'' False (start ()) = (Resolved (), w')"
    and "outbox w' = outbox (start ())
           @ map (\<lambda>r. mailOptions no_options (trim r) (Some ''s'') ''hello'' False) [''a@x.com'', '' b@x.com '']
           @ map (\<lambda>r. mailOptions no_options (trim r) (Some ''s'') ''hello'' False) [''a@x.com'', '' b@x.com '']"
    using sendEmails_recipients [OF example_txt_load, of no_options delivers "Some ''s''" "''hello''" False]
    by blast
  then have n: "length (outbox (snd (sendEmails (example_env [(''list.txt'', example_txt)] []) no_options
                   delivers (Some ''list.txt'') None (Some ''s'') ''hello'' False (start ())))) = 4"
    by (simp add: start_def)
  show ?thesis
    using n sendEmails_to_trimmed
      [of "start ()" "example_env [(''list.txt'', example_txt)] []" no_options delivers
          "Some ''list.txt''" None "Some ''s''" "''hello''" False]
    by (simp add: start_def)
qed

text \<open>
  Claim C7 says that loading fails for an unsupported extension. For \<^verbatim>\<open>list.pdf\<close> the
  promise of \<^verbatim>\<open>sendEmails\<close> is fulfilled and not rejected: it ends as it does for an empty
  \<^verbatim>\<open>.txt\<close> file, and no error is raised.
\<close>

theorem sendEmails_unsupported_is_fulfilled:
  "fst (sendEmails (example_env [] []) no_options delivers (Some ''list.pdf'') None (Some ''s'') ''hello''
          False (start ()))
     = Resolved ()
   \<and> (\<forall>r. fst (sendEmails (example_env [] []) no_options delivers (Some ''list.pdf'') None (Some ''s'')
                  ''hello'' False (start ()))
           \<noteq> Rejected r)
   \<and> fst (sendEmails (example_env [] []) no_options delivers (Some ''list.pdf'') None (Some ''s'') ''hello''
            False (start ()))
       = fst (sendEmails (example_env [(''empty.txt'', [])] []) no_options delivers (Some ''empty.txt'')
                None (Some ''s'') ''hello'' False (start ()))"
proof -
  have a: "fst (sendEmails (example_env [] []) no_options delivers (Some ''list.pdf'') None (Some ''s'')
                  ''hello'' False (start ()))
             = Resolved ()"
    by code_simp
  have b: "fst (sendEmails (example_env [(''empty.txt'', [])] []) no_options delivers (Some ''empty.txt'')
                  None (Some ''s'') ''hello'' False (start ()))
             = Resolved ()"
    by code_simp
  show ?thesis using a b by simp
qed

text \<open>
  Claim C7, amended. With no single address and a path whose extension is none of
  \<^verbatim>\<open>.txt\<close>, \<^verbatim>\<open>.csv\<close> and \<^verbatim>\<open>.json\<close>, no recipients are loaded: the unsupported-format
  line is printed and \<^verbatim>\<open>sendEmails\<close> returns normally, its promise fulfilled; no file is
  opened and nothing is handed to the transport.
\<close>

theorem sendEmails_unsupported_extension:
  assumes "\<not> truthy singleEmail"
    and "extname env p \<noteq> ''.txt''" and "extname env p \<noteq> ''.csv''" and "extname env p \<noteq> ''.json''"
  shows "load_recipients env (Some p) singleEmail w
           = (Unsupported_file_format,
              w\<lparr> console := console w
                    @ [Console_log ''Unsupported file format. Please use .txt, .csv, or .json files.''] \<rparr>)
         \<and> sendEmails env cfg sendMail (Some p) singleEmail subject message isHtml w
             = (Resolved (),
                w\<lparr> console := console w
                      @ [Console_log ''Unsupported file format. Please use .txt, .csv, or .json files.''] \<rparr>)
         \<and> files_read (snd (sendEmails env cfg sendMail (Some p) singleEmail subject message isHtml w))
             = files_read w
         \<and> outbox (snd (sendEmails env cfg sendMail (Some p) singleEmail subject message isHtml w))
             = outbox w"
  using assms by (simp add: sendEmails_def load_recipients_def Let_def)

theorem sendEmails_unsupported_extension_witness:
  "posix_extname ''list.pdf'' = ''.pdf''
   \<and> sendEmails (example_env [] []) no_options delivers (Some ''list.pdf'') None (Some ''s'') ''hello''
         False (start ())
       = (Resolved (),
          (start ())\<lparr> console :=
            [Console_log ''Unsupported file format. Please use .txt, .csv, or .json files.''] \<rparr>)"
proof -
  have e: "posix_extname ''list.pdf'' = ''.pdf''" by code_simp
  have t: "\<not> truthy None" by (simp add: truthy_def)
  show ?thesis
    using e sendEmails_unsupported_extension
      [OF t, of "example_env [] []" "''list.pdf''" "start ()" no_options delivers "Some ''s''" "''hello''" False]
    by (simp add: example_env_def start_def)
qed

section \<open>The readers\<close>

text \<open>
  Claim C5 says that the reader of a \<^verbatim>\<open>.txt\<close> file returns the non-blank lines trimmed.
  It returns them as they stand in the file: with Windows line ends every returned line
  keeps its carriage return.
\<close>

theorem readEmailsFromTxt_untrimmed:
  "fst (readEmailsFromTxt (example_env [(''list.txt'', example_crlf)] []) ''list.txt'' (start ()))
     = Resolved [''a@x.com'' @ [CHR 0x0D], ''b@x.com'' @ [CHR 0x0D]]
   \<and> spec_txt_recipients example_crlf = [''a@x.com'', ''b@x.com'']
   \<and> fst (readEmailsFromTxt (example_env [(''list.txt'', example_crlf)] []) ''list.txt'' (start ()))
       \<noteq> Resolved (spec_txt_recipients example_crlf)"
  by code_simp

text \<open>
  Claim C5, amended. For every content of a \<^verbatim>\<open>.txt\<close> file the reader returns exactly the
  lines that are not blank or whitespace-only, in the order of the file and as they stand
  there; trimming each of them gives the list of the specification.
\<close>

theorem readEmailsFromTxt_lines:
  assumes "readFile env targetFilePath = Inr data"
  shows "fst (readEmailsFromTxt env targetFilePath w)
           = Resolved (filter (\<lambda>l. \<not> list_all is_ws l) (split_str (CHR 0x0A) data))
         \<and> (\<exists>recipients. fst (readEmailsFromTxt env targetFilePath w) = Resolved recipients
                \<and> map trim recipients = spec_txt_recipients data)"
  using assms by (simp add: readEmailsFromTxt_def Let_def trim_eq_Nil spec_txt_recipients_def)

theorem readEmailsFromTxt_lines_witness:
  "readFile (example_env [(''list.txt'', example_txt)] []) ''list.txt'' = Inr example_txt
   \<and> fst (readEmailsFromTxt (example_env [(''list.txt'', example_txt)] []) ''list.txt'' (start ()))
       = Resolved [''a@x.com'', '' b@x.com '']
   \<and> spec_txt_recipients example_txt = [''a@x.com'', ''b@x.com'']"
proof -
  have r: "readFile (example_env [(''list.txt'', example_txt)] []) ''list.txt'' = Inr example_txt"
    by (simp add: example_env_def)
  have f: "filter (\<lambda>l. \<not> list_all is_ws l) (split_str (CHR 0x0A) example_txt) = [''a@x.com'', '' b@x.com '']"
    by code_simp
  have s: "spec_txt_recipients example_txt = [''a@x.com'', ''b@x.com'']"
    by code_simp
  show ?thesis
    using r f s readEmailsFromTxt_lines [OF r, of "start ()"] by simp
qed

text \<open>
  Claim C6 says that a JSON array with an object that has no member \<^verbatim>\<open>email\<close> loads,
  the object being skipped. \<^verbatim>\<open>r.email.trim()\<close> throws for such an object before
  \<^verbatim>\<open>filter(Boolean)\<close> is reached: the reader rejects, and nothing is sent.
\<close>

theorem readEmailsFromJson_missing_email:
  "fst (readEmailsFromJson (example_env [(''list.json'', example_json)] [(example_json, example_json_value)])
          ''list.json'' (start ()))
     = Rejected (Error_parsing_JSON TypeError)
   \<and> sendEmails (example_env [(''list.json'', example_json)] [(example_json, example_json_value)])
         no_options delivers (Some ''list.json'') None (Some ''s'') ''hello'' False (start ())
       = (Rejected (Error_parsing_JSON TypeError), (start ())\<lparr> files_read := [''list.json''] \<rparr>)"
  by code_simp

end
